theory Spec2Isabelle
  imports Complex_Main
begin

section \<open>Numbers and strings of the host language\<close>

text \<open>
  The scoring code of EduMimic (\<^verbatim>\<open>src/utils/scoringSystem.ts\<close>, the voice analysis that
  follows it in the same file, and \<^verbatim>\<open>calculateEngagementScore\<close> of
  \<^verbatim>\<open>src/components/FaceAnalysis.tsx\<close>) is embedded here function by function.

  A JavaScript \<^verbatim>\<open>number\<close> is modelled as a \<^typ>\<open>real\<close>: arithmetic is exact. The one
  place where the source can produce \<^verbatim>\<open>NaN\<close> from finite inputs (a division \<^verbatim>\<open>0 / 0\<close> in the
  voice analysis of a buffer with no samples) is written out as a value of its own.

  A JavaScript string is modelled as a \<^typ>\<open>string\<close>, one \<^typ>\<open>char\<close> for each code unit
  below 256; white space, lower-casing and case-insensitive matching are those of
  JavaScript on these code units.
\<close>

datatype number = NaN | Num real

text \<open>The class \<^verbatim>\<open>\s\<close> of a regular expression, which is also what \<^verbatim>\<open>trim\<close> removes:
  TAB, LF, VT, FF, CR, space and the no-break space.\<close>

definition isSpace :: "char \<Rightarrow> bool" where
  "isSpace c = (of_char c \<in> {9::nat, 10, 11, 12, 13, 32, 160})"

text \<open>\<^verbatim>\<open>String.prototype.toLowerCase\<close>: the letters A to Z, and the capital letters of the
  upper half of Latin-1 (all of C0 to DE but the multiplication sign D7), move up by 32.\<close>

definition toLowerChar :: "char \<Rightarrow> char" where
  "toLowerChar c =
     (let n = of_char c :: nat
      in if (65 \<le> n \<and> n \<le> 90) \<or> (192 \<le> n \<and> n \<le> 222 \<and> n \<noteq> 215)
         then char_of (n + 32) else c)"

definition toLowerCase :: "string \<Rightarrow> string" where
  "toLowerCase s = map toLowerChar s"

text \<open>The canonical form that a regular expression with the flag \<^verbatim>\<open>i\<close> (and without
  \<^verbatim>\<open>u\<close>) compares: the upper-case letter for a to z; a code unit from 128 on is never
  mapped onto an ASCII one, so against the ASCII patterns of this program it only matches
  itself.\<close>

definition canonicalize :: "char \<Rightarrow> char" where
  "canonicalize c =
     (case map_of (zip ''abcdefghijklmnopqrstuvwxyz'' ''ABCDEFGHIJKLMNOPQRSTUVWXYZ'') c of
        None \<Rightarrow> c
      | Some u \<Rightarrow> u)"

text \<open>\<^verbatim>\<open>s.split(re)\<close> for a regular expression \<^verbatim>\<open>re\<close> of the form \<^verbatim>\<open>[class]+\<close>: the string is
  cut at every maximal run of separator characters. The pieces before a leading run and
  after a trailing run are empty strings, and the empty string gives one empty piece.
  The flag says that the previous character was a separator; the accumulator holds the
  current piece, reversed.\<close>

fun split_runs :: "(char \<Rightarrow> bool) \<Rightarrow> bool \<Rightarrow> string \<Rightarrow> string \<Rightarrow> string list" where
  "split_runs sep in_run acc [] = [rev acc]"
| "split_runs sep in_run acc (c # cs) =
     (if sep c
      then (if in_run then split_runs sep True [] cs
            else rev acc # split_runs sep True [] cs)
      else split_runs sep False (c # acc) cs)"

text \<open>\<^verbatim>\<open>s.split(/\s+/)\<close> and \<^verbatim>\<open>s.split(/[.!?]+/)\<close>.\<close>

definition split_whitespace :: "string \<Rightarrow> string list" where
  "split_whitespace s = split_runs isSpace False [] s"

definition split_punctuation :: "string \<Rightarrow> string list" where
  "split_punctuation s =
     split_runs (\<lambda>c. c = CHR ''.'' \<or> c = CHR ''!'' \<or> c = CHR ''?'') False [] s"

definition trim :: "string \<Rightarrow> string" where
  "trim s = rev (dropWhile isSpace (rev (dropWhile isSpace s)))"

fun startsWith :: "string \<Rightarrow> string \<Rightarrow> bool" where
  "startsWith s [] = True"
| "startsWith [] (p # ps) = False"
| "startsWith (c # cs) (p # ps) = (c = p \<and> startsWith cs ps)"

text \<open>\<^verbatim>\<open>s.includes(k)\<close>: \<^verbatim>\<open>k\<close> occurs in \<^verbatim>\<open>s\<close> as a substring.\<close>

fun includes_str :: "string \<Rightarrow> string \<Rightarrow> bool" where
  "includes_str [] k = (k = [])"
| "includes_str (c # cs) k = (startsWith (c # cs) k \<or> includes_str cs k)"

text \<open>A pattern of this program is an alternation of literal words, \<^verbatim>\<open>/w1|w2|.../gi\<close>,
  given here as the list of its words. At a position the alternatives are tried from left
  to right and the first that matches (case-insensitively) is taken.\<close>

fun matchesHere :: "string \<Rightarrow> string \<Rightarrow> bool" where
  "matchesHere s [] = True"
| "matchesHere [] (p # ps) = False"
| "matchesHere (c # cs) (p # ps) = (canonicalize c = canonicalize p \<and> matchesHere cs ps)"

fun firstAlternative :: "string list \<Rightarrow> string \<Rightarrow> nat option" where
  "firstAlternative [] s = None"
| "firstAlternative (w # ws) s =
     (if matchesHere s w then Some (length w) else firstAlternative ws s)"

text \<open>The length of \<^verbatim>\<open>s.match(pattern)\<close> with the flag \<^verbatim>\<open>g\<close> (0 for the \<^verbatim>\<open>null\<close> of no match):
  the matches are found from left to right and do not overlap, the search going on behind
  the end of each match. \<open>skip\<close> counts the characters of the last match that are still
  to be passed over.\<close>

fun countMatches :: "string list \<Rightarrow> nat \<Rightarrow> string \<Rightarrow> nat" where
  "countMatches pattern skip [] = 0"
| "countMatches pattern skip (c # cs) =
     (if skip > 0 then countMatches pattern (skip - 1) cs
      else (case firstAlternative pattern (c # cs) of
              None \<Rightarrow> countMatches pattern 0 cs
            | Some n \<Rightarrow> 1 + countMatches pattern (n - 1) cs))"

text \<open>\<^verbatim>\<open>s.match(pattern)\<close> used as a condition: there is a match.\<close>

definition hasMatch :: "string list \<Rightarrow> string \<Rightarrow> bool" where
  "hasMatch pattern s = (countMatches pattern 0 s > 0)"

section \<open>Data model\<close>

text \<open>An emotion frame is an object \<^verbatim>\<open>{ [key: string]: number }\<close>: a list of its
  properties, each key once. \<^verbatim>\<open>Object.keys(e)\<close> are its keys, and \<^verbatim>\<open>e.k || 0\<close> reads a
  property, with 0 for a missing one.\<close>

type_synonym emotion = "(string \<times> real) list"

definition object_keys :: "emotion \<Rightarrow> string list" where
  "object_keys e = remdups (map fst e)"

definition prop_or_0 :: "emotion \<Rightarrow> string \<Rightarrow> real" where
  "prop_or_0 e k = (case map_of e k of None \<Rightarrow> 0 | Some v \<Rightarrow> v)"

record VoiceQuality =
  clarity :: number
  score :: string
  volume :: number
  confidence :: number

text \<open>\<^verbatim>\<open>voiceQualities\<close> is an \<^verbatim>\<open>any[]\<close>; an entry is a voice-quality sample or
  \<^verbatim>\<open>null\<close>/\<^verbatim>\<open>undefined\<close> (\<open>None\<close>), which \<^verbatim>\<open>quality?.clarity\<close> lets through.\<close>

record SessionData =
  transcript :: string
  emotions :: "emotion list"
  voiceQualities :: "VoiceQuality option list"
  topic :: string
  duration :: real

text \<open>The argument of \<^verbatim>\<open>calculateOverallScore\<close> is the four component scores;
  \<^verbatim>\<open>EvaluationMetrics\<close> has them as its first four fields.\<close>

record ComponentScores =
  faceEngagement :: real
  voiceClarity :: real
  contentQuality :: real
  interactionScore :: real

record EvaluationMetrics = ComponentScores +
  overallScore :: real
  feedback :: string
  suggestions :: "string list"

text \<open>The result \<^verbatim>\<open>{ score, feedback, suggestions }\<close> of both content analyzers.\<close>

record ContentAnalysis =
  analysis_score :: real
  analysis_feedback :: string
  analysis_suggestions :: "string list"

text \<open>The state of a \<^verbatim>\<open>ComprehensiveScoring\<close> object: whether \<^verbatim>\<open>this.genAI\<close> holds a
  handle (\<open>True\<close>) or \<^verbatim>\<open>null\<close>.\<close>

record ComprehensiveScoring =
  genAI :: bool

section \<open>Face engagement\<close>

text \<open>\<^verbatim>\<open>calculateEngagementScore\<close> of the live display (FaceAnalysis.tsx).\<close>

definition calculateEngagementScore :: "emotion \<Rightarrow> real" where
  "calculateEngagementScore e =
     (let positive = prop_or_0 e ''happy'';
          neutral = prop_or_0 e ''neutral'';
          surprised = prop_or_0 e ''surprised'';
          sad = prop_or_0 e ''sad'';
          angry = prop_or_0 e ''angry'';
          disgusted = prop_or_0 e ''disgusted'';
          fearful = prop_or_0 e ''fearful''
      in max 0 (min 1
           ((positive * 0.8 + neutral * 0.6 + surprised * 0.4) -
            (sad * 0.3 + angry * 0.4 + disgusted * 0.5 + fearful * 0.3))))"

text \<open>The constant \<^verbatim>\<open>frameEngagement\<close> in the callback of \<^verbatim>\<open>calculateFaceEngagement\<close>.\<close>

definition frameEngagement :: "emotion \<Rightarrow> real" where
  "frameEngagement emotion =
     (let positive = prop_or_0 emotion ''happy'' + prop_or_0 emotion ''surprised'' * 0.5;
          neutral = prop_or_0 emotion ''neutral'';
          negative = prop_or_0 emotion ''sad'' + prop_or_0 emotion ''angry''
                     + prop_or_0 emotion ''disgusted'' + prop_or_0 emotion ''fearful''
      in max 0 (min 1 (positive * 0.8 + neutral * 0.4 - negative * 0.3)))"

text \<open>The callback of \<^verbatim>\<open>emotions.forEach\<close>, on the pair of the two variables it updates,
  \<^verbatim>\<open>(totalEngagement, validFrames)\<close>: a frame counts when it has at least one key.\<close>

definition forEach_frame :: "emotion \<Rightarrow> real \<times> nat \<Rightarrow> real \<times> nat" where
  "forEach_frame emotion st =
     (case st of (totalEngagement, validFrames) \<Rightarrow>
        if length (object_keys emotion) > 0
        then (totalEngagement + frameEngagement emotion, validFrames + 1)
        else (totalEngagement, validFrames))"

definition calculateFaceEngagement :: "emotion list \<Rightarrow> real" where
  "calculateFaceEngagement frames =
     (if length frames = 0 then 0.5
      else (case fold forEach_frame frames (0, 0) of (totalEngagement, validFrames) \<Rightarrow>
              if validFrames > 0 then totalEngagement / real validFrames else 0.5))"

text \<open>The description of the specification, in its words: \<open>clamp01\<close>, the per-frame value,
  which frames are valid (at least one non-zero emotion value), and the mean over the
  valid frames, 0.5 when there is none.\<close>

definition clamp01 :: "real \<Rightarrow> real" where
  "clamp01 x = (if x < 0 then 0 else if x > 1 then 1 else x)"

definition frameEngagement_spec :: "emotion \<Rightarrow> real" where
  "frameEngagement_spec e =
     clamp01 ((prop_or_0 e ''happy'' + prop_or_0 e ''surprised'' * 0.5) * 0.8
              + prop_or_0 e ''neutral'' * 0.4
              - (prop_or_0 e ''sad'' + prop_or_0 e ''angry'' + prop_or_0 e ''disgusted''
                 + prop_or_0 e ''fearful'') * 0.3)"

definition liveEngagement_spec :: "emotion \<Rightarrow> real" where
  "liveEngagement_spec e =
     clamp01 (prop_or_0 e ''happy'' * 0.8 + prop_or_0 e ''neutral'' * 0.6
              + prop_or_0 e ''surprised'' * 0.4
              - (prop_or_0 e ''sad'' * 0.3 + prop_or_0 e ''angry'' * 0.4
                 + prop_or_0 e ''disgusted'' * 0.5 + prop_or_0 e ''fearful'' * 0.3))"

definition mean_or_half :: "real list \<Rightarrow> real" where
  "mean_or_half xs = (if xs = [] then 0.5 else sum_list xs / real (length xs))"

definition has_nonzero_value :: "emotion \<Rightarrow> bool" where
  "has_nonzero_value e = list_ex (\<lambda>kv. snd kv \<noteq> 0) e"

definition faceEngagement_spec :: "emotion list \<Rightarrow> real" where
  "faceEngagement_spec es = mean_or_half (map frameEngagement_spec (filter has_nonzero_value es))"

text \<open>The seven labels of an emotion frame, and a frame with all seven at 0.\<close>

definition emotion_labels :: "string list" where
  "emotion_labels =
     [''neutral'', ''happy'', ''sad'', ''angry'', ''fearful'', ''disgusted'', ''surprised'']"

definition blank_frame :: emotion where
  "blank_frame = map (\<lambda>k. (k, 0)) emotion_labels"

definition happy_frame :: emotion where
  "happy_frame = (''happy'', 1) # map (\<lambda>k. (k, 0)) (remove1 ''happy'' emotion_labels)"

section \<open>Overall score and voice clarity\<close>

definition calculateOverallScore :: "ComponentScores \<Rightarrow> real" where
  "calculateOverallScore metrics =
     faceEngagement metrics * 0.2 + voiceClarity metrics * 0.25
     + contentQuality metrics * 0.35 + interactionScore metrics * 0.2"

text \<open>\<^verbatim>\<open>quality?.clarity || 0\<close>: 0 for a missing entry, for \<^verbatim>\<open>NaN\<close> and for 0.\<close>

definition clarity_or_0 :: "VoiceQuality option \<Rightarrow> real" where
  "clarity_or_0 quality =
     (case quality of None \<Rightarrow> 0
      | Some q \<Rightarrow> (case clarity q of NaN \<Rightarrow> 0 | Num x \<Rightarrow> x))"

definition calculateVoiceClarity :: "VoiceQuality option list \<Rightarrow> real" where
  "calculateVoiceClarity qualities =
     (if length qualities = 0 then 0.5
      else (let avgClarity = fold (\<lambda>quality sum. sum + clarity_or_0 quality) qualities 0
                             / real (length qualities)
            in max 0 (min 1 avgClarity)))"

section \<open>Voice quality of one audio sample\<close>

text \<open>What can go wrong before the samples are there: \<^verbatim>\<open>blob.arrayBuffer()\<close> rejects, no
  audio context can be made, or \<^verbatim>\<open>decodeAudioData\<close> rejects the (malformed or empty) data.
  The input of the analysis is the outcome of these steps: an error, or the samples of
  channel 0.\<close>

datatype audio_error = ArrayBufferFailed | AudioContextFailed | DecodeFailed

text \<open>The body of the \<^verbatim>\<open>for\<close> loop on \<^verbatim>\<open>(sumSquares, maxAmplitude, silenceFrames)\<close>.\<close>

definition sample_step :: "real \<Rightarrow> real \<times> real \<times> nat \<Rightarrow> real \<times> real \<times> nat" where
  "sample_step x st =
     (case st of (sumSquares, maxAmplitude, silenceFrames) \<Rightarrow>
        (let amplitude = \<bar>x\<bar>
         in (sumSquares + x * x, max maxAmplitude amplitude,
             if amplitude < 0.001 then silenceFrames + 1 else silenceFrames)))"

definition scoreLabel :: "real \<Rightarrow> string" where
  "scoreLabel clarityScore =
     (if clarityScore > 0.8 then ''Excellent''
      else if clarityScore > 0.6 then ''Good''
      else if clarityScore > 0.4 then ''Fair''
      else if clarityScore > 0.2 then ''Poor''
      else ''Very Poor'')"

text \<open>With no sample at all both quotients are \<^verbatim>\<open>0 / 0\<close>, every score is \<^verbatim>\<open>NaN\<close>, and every
  comparison of the label fails.\<close>

definition analyzeVoiceQuality :: "audio_error + real list \<Rightarrow> VoiceQuality" where
  "analyzeVoiceQuality blob =
     (case blob of
        Inl error \<Rightarrow> \<lparr>clarity = Num 0, score = ''Error'', volume = Num 0, confidence = Num 0\<rparr>
      | Inr channelData \<Rightarrow>
          if length channelData = 0
          then \<lparr>clarity = NaN, score = ''Very Poor'', volume = NaN, confidence = NaN\<rparr>
          else (case fold sample_step channelData (0, 0, 0) of
                  (sumSquares, maxAmplitude, silenceFrames) \<Rightarrow>
                    (let rms = sqrt (sumSquares / real (length channelData));
                         silenceRatio = real silenceFrames / real (length channelData);
                         volumeScore = min 1 (rms * 20);
                         dynamicRange = maxAmplitude - rms;
                         snrScore = min 1 (dynamicRange * 10);
                         consistencyScore = max 0 (1 - silenceRatio * 2);
                         clarityScore = volumeScore * 0.4 + snrScore * 0.3
                                        + consistencyScore * 0.3;
                         confidence_value = clarityScore
                     in \<lparr>clarity = Num clarityScore, score = scoreLabel clarityScore,
                         volume = Num volumeScore, confidence = Num confidence_value\<rparr>)))"

section \<open>Interaction score\<close>

definition wordCount :: "string \<Rightarrow> nat" where
  "wordCount text = length (split_whitespace text)"

definition wpmScore :: "real \<Rightarrow> real" where
  "wpmScore wordsPerMinute =
     (if wordsPerMinute \<ge> 120 \<and> wordsPerMinute \<le> 180 then 1
      else if wordsPerMinute \<ge> 100 \<and> wordsPerMinute \<le> 200 then 0.8
      else if wordsPerMinute \<ge> 80 \<and> wordsPerMinute \<le> 220 then 0.6
      else 0.4)"

definition interactionPatterns :: "string list list" where
  "interactionPatterns =
     [[''?''],
      [''because'', ''therefore'', ''thus'', ''so'', ''hence''],
      [''first'', ''second'', ''third'', ''next'', ''then'', ''finally''],
      [''for example'', ''such as'', ''like'', ''including'']]"

definition calculateInteractionScore :: "SessionData \<Rightarrow> real" where
  "calculateInteractionScore sessionData =
     (if transcript sessionData = [] \<or> duration sessionData = 0 then 0
      else (let wordsPerMinute =
                  (real (wordCount (transcript sessionData)) / duration sessionData) * 60;
                interactionComplexity =
                  fold (\<lambda>pattern n. n + countMatches pattern 0 (transcript sessionData))
                    interactionPatterns 0;
                complexityScore = min 1 (real interactionComplexity / 10)
            in wpmScore wordsPerMinute * 0.6 + complexityScore * 0.4))"

text \<open>The reference definition, in the words of the specification: the four bands as
  intervals, the narrowest first; the number of matches as the sum over the four classes
  (question marks, explanatory connectives, sequence markers, example markers).\<close>

definition wpmScore_spec :: "real \<Rightarrow> real" where
  "wpmScore_spec wpm =
     (if wpm \<in> {120..180} then 1.0
      else if wpm \<in> {100..200} then 0.8
      else if wpm \<in> {80..220} then 0.6
      else 0.4)"

definition patternMatchCount :: "string \<Rightarrow> nat" where
  "patternMatchCount text =
     countMatches [''?''] 0 text
     + countMatches [''because'', ''therefore'', ''thus'', ''so'', ''hence''] 0 text
     + countMatches [''first'', ''second'', ''third'', ''next'', ''then'', ''finally''] 0 text
     + countMatches [''for example'', ''such as'', ''like'', ''including''] 0 text"

definition interactionScore_spec :: "SessionData \<Rightarrow> real" where
  "interactionScore_spec sd =
     (if transcript sd = [] \<or> duration sd = 0 then 0
      else wpmScore_spec (real (wordCount (transcript sd)) / duration sd * 60) * 0.6
           + min 1 (real (patternMatchCount (transcript sd)) / 10) * 0.4)"

section \<open>Content quality\<close>

definition sentences :: "string \<Rightarrow> string list" where
  "sentences text = filter (\<lambda>s. length (trim s) > 0) (split_punctuation text)"

definition topicKeywords :: "string \<Rightarrow> string list" where
  "topicKeywords topic_text = split_whitespace (toLowerCase topic_text)"

definition keywordMatches :: "string \<Rightarrow> string \<Rightarrow> nat" where
  "keywordMatches text topic_text =
     length (filter (\<lambda>keyword. includes_str (toLowerCase text) keyword)
               (topicKeywords topic_text))"

definition relevanceScore :: "string \<Rightarrow> string \<Rightarrow> real" where
  "relevanceScore text topic_text =
     real (keywordMatches text topic_text) / real (length (topicKeywords topic_text))"

text \<open>What the structure analysis adds to the score: 0.1 for more than three sentences.\<close>

definition structureBonus :: "string \<Rightarrow> real" where
  "structureBonus text = (if length (sentences text) > 3 then 0.1 else 0)"

definition educationalPatterns :: "string list list" where
  "educationalPatterns =
     [[''explain'', ''definition'', ''means'', ''refers to''],
      [''example'', ''instance'', ''such as''],
      [''because'', ''reason'', ''cause''],
      [''important'', ''key'', ''main'', ''primary'']]"

definition educationalScore :: "string \<Rightarrow> real" where
  "educationalScore text =
     fold (\<lambda>pattern sc. if hasMatch pattern text then sc + 0.05 else sc) educationalPatterns 0"

definition feedback_for :: "real \<Rightarrow> string" where
  "feedback_for contentScore =
     (if contentScore \<ge> 0.8
      then ''Excellent presentation with clear explanations and good topic coverage.''
      else if contentScore \<ge> 0.6
      then ''Good presentation with room for improvement in detail and clarity.''
      else if contentScore \<ge> 0.4
      then ''Adequate presentation but needs more comprehensive coverage.''
      else ''Presentation needs significant improvement in content and delivery.'')"

text \<open>The score before the keyword term, with the suggestion of the word-count analysis.\<close>

definition wordCountAnalysis :: "nat \<Rightarrow> real \<times> string list" where
  "wordCountAnalysis n =
     (if n < 50 then (0.5 - 0.2, [''Provide more detailed explanations''])
      else if n > 500 then (0.5 + 0.1, [])
      else (0.5, []))"

definition analyzeContentLocally :: "SessionData \<Rightarrow> ContentAnalysis" where
  "analyzeContentLocally sessionData =
     (if transcript sessionData = []
      then \<lparr>analysis_score = 0.2,
            analysis_feedback = ''No speech detected during the session.'',
            analysis_suggestions =
              [''Ensure microphone is working'', ''Speak clearly and loudly'']\<rparr>
      else (case wordCountAnalysis (wordCount (transcript sessionData)) of
              (baseScore, firstSuggestions) \<Rightarrow>
                (let contentScore =
                       max 0 (min 1 (baseScore
                                     + relevanceScore (transcript sessionData)
                                         (topic sessionData) * 0.3
                                     + structureBonus (transcript sessionData)
                                     + educationalScore (transcript sessionData)))
                 in \<lparr>analysis_score = contentScore,
                     analysis_feedback = feedback_for contentScore,
                     analysis_suggestions =
                       firstSuggestions
                       @ (if relevanceScore (transcript sessionData) (topic sessionData) < 0.5
                          then [''Stay more focused on the main topic''] else [])
                       @ (if wordCount (transcript sessionData) < 100
                          then [''Provide more detailed explanations''] else [])
                       @ (if \<not> hasMatch [''example'', ''instance''] (transcript sessionData)
                          then [''Include examples to illustrate your points''] else [])\<rparr>)))"

text \<open>The sample of the specification, in a session of four seconds.\<close>

definition sample_transcript :: string where
  "sample_transcript = ''The cat sat. The cat ran. Because it was happy.''"


definition sample_session :: SessionData where
  "sample_session =
     \<lparr>transcript = sample_transcript,
      emotions = [], voiceQualities = [], topic = ''cats'', duration = 4\<rparr>"

section \<open>Remote content analysis and the evaluation of a session\<close>

text \<open>The generative-text service is outside the program. What one call gives back is an
  input of the model: the request fails (\<^verbatim>\<open>generateContent\<close> or \<^verbatim>\<open>result.response\<close>
  throws), or the text of the response does not parse to an object (\<^verbatim>\<open>JSON.parse\<close> throws,
  or gives \<^verbatim>\<open>null\<close>, whose properties cannot be read), or it parses, with a numeric
  \<^verbatim>\<open>score\<close>, a \<^verbatim>\<open>feedback\<close> string and a \<^verbatim>\<open>suggestions\<close> array, each of which may be
  missing.\<close>

datatype gemini_reply =
    TransportFailure
  | MalformedJSON
  | Parsed "real option" "string option" "string list option"

datatype scoring_error = NotInitialized | RequestFailed | InvalidResponseFormat

definition analyzeContentWithGemini ::
  "ComprehensiveScoring \<Rightarrow> gemini_reply \<Rightarrow> SessionData \<Rightarrow> scoring_error + ContentAnalysis" where
  "analyzeContentWithGemini this reply sessionData =
     (if \<not> genAI this then Inl NotInitialized
      else (case reply of
              TransportFailure \<Rightarrow> Inl RequestFailed
            | MalformedJSON \<Rightarrow> Inl InvalidResponseFormat
            | Parsed sc fb sg \<Rightarrow>
                Inr \<lparr>analysis_score =
                       max 0 (min 1 (case sc of None \<Rightarrow> 0.5
                                     | Some x \<Rightarrow> if x = 0 then 0.5 else x)),
                     analysis_feedback =
                       (case fb of None \<Rightarrow> ''Content analysis completed.''
                        | Some f \<Rightarrow> if f = [] then ''Content analysis completed.'' else f),
                     analysis_suggestions = (case sg of None \<Rightarrow> [] | Some l \<Rightarrow> l)\<rparr>))"

definition getDefaultMetrics :: EvaluationMetrics where
  "getDefaultMetrics =
     \<lparr>faceEngagement = 0.5, voiceClarity = 0.5, contentQuality = 0.5,
      interactionScore = 0.5, overallScore = 0.5,
      feedback = ''Unable to complete full evaluation due to technical issues.'',
      suggestions = [''Ensure camera and microphone permissions are granted'',
                     ''Try again with better lighting'']\<rparr>"

text \<open>An API key is an optional string; it counts when it is there and not empty.\<close>

definition truthy :: "string option \<Rightarrow> bool" where
  "truthy apiKey = (case apiKey of None \<Rightarrow> False | Some k \<Rightarrow> k \<noteq> [])"

definition constructor :: "string option \<Rightarrow> ComprehensiveScoring" where
  "constructor apiKey = \<lparr>genAI = truthy apiKey\<rparr>"

definition initGemini :: "ComprehensiveScoring \<Rightarrow> string option \<Rightarrow> ComprehensiveScoring" where
  "initGemini this apiKey = (if truthy apiKey \<and> \<not> genAI this then this\<lparr>genAI := True\<rparr> else this)"

text \<open>The content analysis chosen in \<^verbatim>\<open>evaluateSession\<close>: the remote one when there is a
  handle and a transcript, and the local one when the remote one throws or is not tried. The
  initial values \<^verbatim>\<open>0.5\<close>, \<^verbatim>\<open>"Session completed successfully."\<close> and \<^verbatim>\<open>[]\<close> of the three
  variables are overwritten on each of the three paths.\<close>

definition contentAnalysis ::
  "ComprehensiveScoring \<Rightarrow> gemini_reply \<Rightarrow> SessionData \<Rightarrow> ContentAnalysis" where
  "contentAnalysis this reply sessionData =
     (if genAI this \<and> transcript sessionData \<noteq> []
      then (case analyzeContentWithGemini this reply sessionData of
              Inr remoteAnalysis \<Rightarrow> remoteAnalysis
            | Inl error \<Rightarrow> analyzeContentLocally sessionData)
      else analyzeContentLocally sessionData)"

text \<open>The body of the outer \<^verbatim>\<open>try\<close>, after the handle is initialised. On inputs of the
  declared types no step of it throws, so it ends in \<open>Inr\<close>; the \<^verbatim>\<open>catch\<close> of
  \<^verbatim>\<open>evaluateSession\<close> is the \<open>Inl\<close> branch there.\<close>

definition evaluate_try ::
  "ComprehensiveScoring \<Rightarrow> gemini_reply \<Rightarrow> SessionData \<Rightarrow> scoring_error + EvaluationMetrics" where
  "evaluate_try this reply sessionData =
     (let fe = calculateFaceEngagement (emotions sessionData);
          vc = calculateVoiceClarity (voiceQualities sessionData);
          is = calculateInteractionScore sessionData;
          ca = contentAnalysis this reply sessionData;
          os = calculateOverallScore
                 \<lparr>faceEngagement = fe, voiceClarity = vc,
                  contentQuality = analysis_score ca, interactionScore = is\<rparr>
      in Inr \<lparr>faceEngagement = fe, voiceClarity = vc, contentQuality = analysis_score ca,
              interactionScore = is, overallScore = os,
              feedback = analysis_feedback ca, suggestions = analysis_suggestions ca\<rparr>)"

text \<open>\<^verbatim>\<open>evaluateSession\<close> returns the object with its handle, and the metrics.\<close>

definition evaluateSession ::
  "ComprehensiveScoring \<Rightarrow> SessionData \<Rightarrow> string option \<Rightarrow> gemini_reply
     \<Rightarrow> ComprehensiveScoring \<times> EvaluationMetrics" where
  "evaluateSession this sessionData apiKey reply =
     (let this' = initGemini this apiKey
      in (this', case evaluate_try this' reply sessionData of
                   Inr metrics \<Rightarrow> metrics
                 | Inl error \<Rightarrow> getDefaultMetrics))"

section \<open>Properties\<close>

lemma max_min_clamp01: "max 0 (min 1 x) = clamp01 x"
  by (simp add: clamp01_def max_def min_def)

lemma clamp01_range: "0 \<le> clamp01 x \<and> clamp01 x \<le> 1"
  by (simp add: clamp01_def)

lemma frameEngagement_eq_spec: "frameEngagement e = frameEngagement_spec e"
  unfolding frameEngagement_def frameEngagement_spec_def Let_def max_min_clamp01
  by (rule refl)

lemma calculateEngagementScore_eq_spec: "calculateEngagementScore e = liveEngagement_spec e"
  unfolding calculateEngagementScore_def liveEngagement_spec_def Let_def max_min_clamp01
  by (rule refl)

lemma forEach_frame_step:
  "forEach_frame e (t, n) = (if e \<noteq> [] then (t + frameEngagement e, n + 1) else (t, n))"
  by (simp add: forEach_frame_def object_keys_def)

lemma fold_forEach_frame:
  "fold forEach_frame es (t, n) =
     (t + sum_list (map frameEngagement (filter (\<lambda>e. e \<noteq> []) es)),
      n + length (filter (\<lambda>e. e \<noteq> []) es))"
proof (induction es arbitrary: t n)
  case Nil
  show ?case by simp
next
  case (Cons e es)
  show ?case
    by (cases "e = []") (simp_all add: forEach_frame_step Cons.IH add.assoc)
qed

lemma wpmScore_eq_spec: "wpmScore wpm = wpmScore_spec wpm"
  by (simp add: wpmScore_def wpmScore_spec_def)

lemma fold_interactionPatterns:
  "fold (\<lambda>pattern n. n + countMatches pattern 0 text) interactionPatterns 0
     = patternMatchCount text"
  by (simp add: interactionPatterns_def patternMatchCount_def)

lemma sample_transcript_not_empty: "sample_transcript \<noteq> []"
  by (simp add: sample_transcript_def)

lemma sample_wordCount: "wordCount sample_transcript = 10"
  by code_simp

lemma sample_topicKeywords: "topicKeywords ''cats'' = [''cats'']"
  by code_simp

lemma sample_keywordMatches: "keywordMatches sample_transcript ''cats'' = 0"
  by code_simp

lemma sample_sentences: "length (sentences sample_transcript) = 3"
  by code_simp

lemma sample_educationalScore: "educationalScore sample_transcript = 0.05"
  by code_simp

lemma sample_patternMatchCount: "patternMatchCount sample_transcript = 1"
  by code_simp

lemma sample_relevanceScore: "relevanceScore sample_transcript ''cats'' = 0"
  by (simp add: relevanceScore_def sample_keywordMatches)

lemma sample_structureBonus: "structureBonus sample_transcript = 0"
  by (simp add: structureBonus_def sample_sentences)

lemma sample_local_score:
  "transcript sd = sample_transcript \<Longrightarrow> topic sd = ''cats'' \<Longrightarrow>
     analysis_score (analyzeContentLocally sd) = 0.35"
  by (simp add: analyzeContentLocally_def Let_def sample_transcript_not_empty sample_wordCount
      wordCountAnalysis_def sample_relevanceScore sample_structureBonus
      sample_educationalScore)

lemma feedback_for_not_default:
  "feedback_for x \<noteq> ''Unable to complete full evaluation due to technical issues.''"
  by (simp add: feedback_for_def)

lemma local_feedback_not_default:
  "transcript sd \<noteq> [] \<Longrightarrow>
     analysis_feedback (analyzeContentLocally sd)
       \<noteq> ''Unable to complete full evaluation due to technical issues.''"
  by (simp add: analyzeContentLocally_def Let_def feedback_for_not_default split: prod.splits)

lemma evaluateSession_metrics:
  "snd (evaluateSession this sd apiKey reply) =
     \<lparr>faceEngagement = calculateFaceEngagement (emotions sd),
      voiceClarity = calculateVoiceClarity (voiceQualities sd),
      contentQuality = analysis_score (contentAnalysis (initGemini this apiKey) reply sd),
      interactionScore = calculateInteractionScore sd,
      overallScore = calculateOverallScore
        \<lparr>faceEngagement = calculateFaceEngagement (emotions sd),
         voiceClarity = calculateVoiceClarity (voiceQualities sd),
         contentQuality = analysis_score (contentAnalysis (initGemini this apiKey) reply sd),
         interactionScore = calculateInteractionScore sd\<rparr>,
      feedback = analysis_feedback (contentAnalysis (initGemini this apiKey) reply sd),
      suggestions = analysis_suggestions (contentAnalysis (initGemini this apiKey) reply sd)\<rparr>"
  by (simp add: evaluateSession_def evaluate_try_def Let_def)

subsection \<open>Face engagement of a session\<close>

text \<open>
  Claim C1, as stated: \<^verbatim>\<open>calculateFaceEngagement\<close> is the mean of the per-frame values over
  the frames with at least one non-zero emotion value, and 0.5 when there is no such frame.
  This fails on a session whose only frame has all seven emotions at 0: the frame has
  keys, so the code counts it and returns 0, where the claim asks for 0.5.
\<close>

theorem calculateFaceEngagement_blank_frame_counterexample:
  "calculateFaceEngagement [blank_frame] = 0
   \<and> faceEngagement_spec [blank_frame] = 0.5
   \<and> calculateFaceEngagement [blank_frame] \<noteq> faceEngagement_spec [blank_frame]"
proof -
  have code: "calculateFaceEngagement [blank_frame] = 0"
    by code_simp
  have spec: "faceEngagement_spec [blank_frame] = 0.5"
    by code_simp
  from code spec show ?thesis by simp
qed

text \<open>
  Claim C1, amended: \<^verbatim>\<open>calculateFaceEngagement\<close> is the mean of the per-frame values
  \<open>clamp01((happy + surprised*0.5)*0.8 + neutral*0.4 - (sad+angry+disgusted+fearful)*0.3)\<close>
  over exactly the frames that have at least one key (whatever the values), and 0.5 when
  there is no such frame, in particular for the empty sequence.
\<close>

theorem calculateFaceEngagement_mean_of_keyed_frames:
  "calculateFaceEngagement es =
     mean_or_half (map frameEngagement_spec (filter (\<lambda>e. length (object_keys e) > 0) es))
   \<and> calculateFaceEngagement [] = 0.5"
proof -
  have keyed: "(\<lambda>e::emotion. length (object_keys e) > 0) = (\<lambda>e. e \<noteq> [])"
    by (simp add: object_keys_def fun_eq_iff)
  have same: "map frameEngagement xs = map frameEngagement_spec xs" for xs
    by (simp add: frameEngagement_eq_spec)
  have "calculateFaceEngagement es =
          mean_or_half (map frameEngagement_spec (filter (\<lambda>e. e \<noteq> []) es))"
  proof (cases "filter (\<lambda>e. e \<noteq> []) es = []")
    case True
    then show ?thesis
      by (simp add: calculateFaceEngagement_def fold_forEach_frame mean_or_half_def)
  next
    case False
    then have "es \<noteq> []" by auto
    with False show ?thesis
      by (simp add: calculateFaceEngagement_def fold_forEach_frame mean_or_half_def same)
  qed
  moreover have "calculateFaceEngagement [] = 0.5"
    by (simp add: calculateFaceEngagement_def)
  ultimately show ?thesis
    by (simp only: keyed simp_thms)
qed

theorem calculateFaceEngagement_mean_of_keyed_frames_witness:
  "calculateFaceEngagement [blank_frame, [], happy_frame] = 0.4"
proof -
  have "calculateFaceEngagement [blank_frame, [], happy_frame] =
          mean_or_half (map frameEngagement_spec
            (filter (\<lambda>e. length (object_keys e) > 0) [blank_frame, [], happy_frame]))"
    using calculateFaceEngagement_mean_of_keyed_frames [of "[blank_frame, [], happy_frame]"]
    by (rule conjunct1)
  also have "\<dots> = 0.4"
    by code_simp
  finally show ?thesis .
qed

subsection \<open>Overall score\<close>

text \<open>
  Claim C2: the overall score is
  \<open>faceEngagement*0.2 + voiceClarity*0.25 + contentQuality*0.35 + interactionScore*0.2\<close>,
  with no clamping; it is 1 when the four scores are 1, and it lies in \<open>[0,1]\<close> when the
  four scores do.
\<close>

theorem calculateOverallScore_weighted_sum:
  "calculateOverallScore m =
     faceEngagement m * 0.2 + voiceClarity m * 0.25 + contentQuality m * 0.35
     + interactionScore m * 0.2
   \<and> calculateOverallScore
       \<lparr>faceEngagement = 1, voiceClarity = 1, contentQuality = 1, interactionScore = 1\<rparr> = 1
   \<and> (0 \<le> faceEngagement m \<and> faceEngagement m \<le> 1
      \<and> 0 \<le> voiceClarity m \<and> voiceClarity m \<le> 1
      \<and> 0 \<le> contentQuality m \<and> contentQuality m \<le> 1
      \<and> 0 \<le> interactionScore m \<and> interactionScore m \<le> 1
      \<longrightarrow> 0 \<le> calculateOverallScore m \<and> calculateOverallScore m \<le> 1)"
  by (simp add: calculateOverallScore_def)

theorem calculateOverallScore_weighted_sum_witness:
  "(0 \<le> (0.5::real) \<and> (0.5::real) \<le> 1 \<and> 0 \<le> (1::real) \<and> (1::real) \<le> 1
    \<and> 0 \<le> (0::real) \<and> (0::real) \<le> 1 \<and> 0 \<le> (0.3::real) \<and> (0.3::real) \<le> 1)
   \<and> 0 \<le> calculateOverallScore
         \<lparr>faceEngagement = 0.5, voiceClarity = 1, contentQuality = 0, interactionScore = 0.3\<rparr>
   \<and> calculateOverallScore
         \<lparr>faceEngagement = 0.5, voiceClarity = 1, contentQuality = 0, interactionScore = 0.3\<rparr>
       \<le> 1
   \<and> calculateOverallScore
         \<lparr>faceEngagement = 2, voiceClarity = 2, contentQuality = 2, interactionScore = 2\<rparr> = 2"
  using calculateOverallScore_weighted_sum
          [of "\<lparr>faceEngagement = 0.5, voiceClarity = 1, contentQuality = 0,
                interactionScore = 0.3\<rparr>"]
        calculateOverallScore_weighted_sum
          [of "\<lparr>faceEngagement = 2, voiceClarity = 2, contentQuality = 2,
                interactionScore = 2\<rparr>"]
  by simp

subsection \<open>Both engagement formulas stay in the unit interval\<close>

text \<open>
  Claim C7: for a frame whose seven emotion values lie in \<open>[0,1]\<close>, the live formula
  \<open>clamp01(happy*0.8 + neutral*0.6 + surprised*0.4
     - (sad*0.3 + angry*0.4 + disgusted*0.5 + fearful*0.3))\<close>
  of \<^verbatim>\<open>calculateEngagementScore\<close> and the per-frame formula
  \<open>clamp01((happy + surprised*0.5)*0.8 + neutral*0.4 - (sad+angry+disgusted+fearful)*0.3)\<close>
  of \<^verbatim>\<open>calculateFaceEngagement\<close> are what the code computes, and both values lie in
  \<open>[0,1]\<close>.
\<close>

theorem engagement_formulas_in_unit_interval:
  assumes "\<forall>k \<in> set emotion_labels. 0 \<le> prop_or_0 e k \<and> prop_or_0 e k \<le> 1"
  shows "calculateEngagementScore e = liveEngagement_spec e
         \<and> 0 \<le> calculateEngagementScore e \<and> calculateEngagementScore e \<le> 1
         \<and> frameEngagement e = frameEngagement_spec e
         \<and> 0 \<le> frameEngagement e \<and> frameEngagement e \<le> 1"
  by (simp add: calculateEngagementScore_eq_spec frameEngagement_eq_spec
      liveEngagement_spec_def frameEngagement_spec_def clamp01_range)

theorem engagement_formulas_in_unit_interval_witness:
  "list_all (\<lambda>k. 0 \<le> prop_or_0 happy_frame k \<and> prop_or_0 happy_frame k \<le> 1) emotion_labels
   \<and> calculateEngagementScore happy_frame = liveEngagement_spec happy_frame
   \<and> 0 \<le> calculateEngagementScore happy_frame \<and> calculateEngagementScore happy_frame \<le> 1
   \<and> frameEngagement happy_frame = frameEngagement_spec happy_frame
   \<and> 0 \<le> frameEngagement happy_frame \<and> frameEngagement happy_frame \<le> 1"
proof -
  have l: "list_all (\<lambda>k. 0 \<le> prop_or_0 happy_frame k \<and> prop_or_0 happy_frame k \<le> 1)
             emotion_labels"
    by code_simp
  then have h: "\<forall>k \<in> set emotion_labels.
                  0 \<le> prop_or_0 happy_frame k \<and> prop_or_0 happy_frame k \<le> 1"
    by (simp only: list_all_iff)
  from l engagement_formulas_in_unit_interval [OF h] show ?thesis
    by (rule conjI)
qed

subsection \<open>Voice clarity and voice quality\<close>

text \<open>
  Claim C9: \<^verbatim>\<open>calculateVoiceClarity\<close> returns exactly 0.5 on the empty sequence of
  voice-quality samples.
\<close>

theorem calculateVoiceClarity_empty: "calculateVoiceClarity [] = 0.5"
  by (simp add: calculateVoiceClarity_def)

text \<open>
  Claim C8: when the audio cannot be decoded, \<^verbatim>\<open>analyzeVoiceQuality\<close> returns the sentinel
  \<^verbatim>\<open>{ clarity: 0, score: "Error", volume: 0, confidence: 0 }\<close>; the failure is a value of
  the function, not an error of it.
\<close>

theorem analyzeVoiceQuality_failure_sentinel:
  "analyzeVoiceQuality (Inl err) =
     \<lparr>clarity = Num 0, score = ''Error'', volume = Num 0, confidence = Num 0\<rparr>"
  by (simp add: analyzeVoiceQuality_def)

text \<open>
  Claim C10: the confidence of the returned sample is its clarity, for every sample that
  decodes, and for the sentinel of a failure, where both are 0.
\<close>

theorem analyzeVoiceQuality_confidence_is_clarity:
  "confidence (analyzeVoiceQuality (Inr channelData))
     = clarity (analyzeVoiceQuality (Inr channelData))
   \<and> confidence (analyzeVoiceQuality (Inl err)) = Num 0
   \<and> clarity (analyzeVoiceQuality (Inl err)) = Num 0"
  by (simp add: analyzeVoiceQuality_def Let_def split: prod.splits)

subsection \<open>Interaction score\<close>

text \<open>
  Claim C5: \<^verbatim>\<open>calculateInteractionScore\<close> equals its reference definition. It is 0 when the
  transcript is empty or the duration is 0, whatever the rest of the session; otherwise
  \<open>wpmScore * 0.6 + complexityScore * 0.4\<close>, where the score of the pace is that of the
  narrowest band holding \<open>wpm = wordCount / duration * 60\<close> (1 at 150) and the complexity
  is \<open>min 1 (matches / 10)\<close> over the four pattern classes.
\<close>

theorem calculateInteractionScore_reference:
  "calculateInteractionScore sd = interactionScore_spec sd
   \<and> (transcript sd = [] \<or> duration sd = 0 \<longrightarrow> calculateInteractionScore sd = 0)
   \<and> wpmScore wpm = wpmScore_spec wpm
   \<and> wpmScore 150 = 1"
proof -
  have "calculateInteractionScore sd = interactionScore_spec sd"
    by (simp add: calculateInteractionScore_def interactionScore_spec_def Let_def
        fold_interactionPatterns wpmScore_eq_spec)
  moreover have "transcript sd = [] \<or> duration sd = 0 \<longrightarrow> calculateInteractionScore sd = 0"
    by (simp add: calculateInteractionScore_def)
  moreover have "wpmScore 150 = 1"
    by (simp add: wpmScore_def)
  ultimately show ?thesis
    by (simp add: wpmScore_eq_spec)
qed

theorem calculateInteractionScore_reference_witness:
  "duration (sample_session\<lparr>duration := 0\<rparr>) = 0
   \<and> calculateInteractionScore (sample_session\<lparr>duration := 0\<rparr>) = 0
   \<and> real (wordCount (transcript sample_session)) / duration sample_session * 60 = 150
   \<and> calculateInteractionScore sample_session = 0.64"
proof -
  have zero: "duration (sample_session\<lparr>duration := 0\<rparr>) = 0"
    by simp
  have at_zero: "calculateInteractionScore (sample_session\<lparr>duration := 0\<rparr>) = 0"
    using calculateInteractionScore_reference [of "sample_session\<lparr>duration := 0\<rparr>"] zero
    by blast
  have pace: "real (wordCount (transcript sample_session)) / duration sample_session * 60 = 150"
    by (simp add: sample_session_def sample_wordCount)
  have "calculateInteractionScore sample_session = interactionScore_spec sample_session"
    using calculateInteractionScore_reference [of sample_session] by blast
  also have "\<dots> = 0.64"
    by (simp add: interactionScore_spec_def sample_session_def sample_transcript_not_empty
        sample_wordCount sample_patternMatchCount wpmScore_spec_def)
  finally show ?thesis
    using zero at_zero pace by simp
qed

subsection \<open>Local content analysis of the sample\<close>

text \<open>
  Claim C3, as stated: on the transcript \<^verbatim>\<open>"The cat sat. The cat ran. Because it was happy."\<close>
  with the topic \<^verbatim>\<open>"cats"\<close>, the local scorer counts exactly one keyword match, so that the
  relevance is \<open>1/1\<close>, and the three sentences trigger the structure bonus of 0.1. None of
  the three holds: the keyword \<^verbatim>\<open>cats\<close> is looked up in the transcript and does not occur
  there, and the bonus needs more than three sentences.
\<close>

theorem sample_keyword_and_bonus_counterexample:
  "keywordMatches sample_transcript ''cats'' \<noteq> 1
   \<and> relevanceScore sample_transcript ''cats'' \<noteq> 1 / 1
   \<and> length (sentences sample_transcript) = 3
   \<and> structureBonus sample_transcript \<noteq> 0.1"
  by (simp add: relevanceScore_def structureBonus_def sample_keywordMatches sample_sentences
      sample_topicKeywords)

text \<open>
  Claim C3, amended: on this transcript and topic the local scorer counts no keyword match
  (the one keyword, \<^verbatim>\<open>cats\<close>, is not a substring of the lower-cased transcript), so that
  the relevance is \<open>0/1\<close>, and the sentence count of 3 does not trigger the structure bonus,
  which needs more than three sentences. The score of such a session is 0.35.
\<close>

theorem sample_no_keyword_match_no_bonus:
  "keywordMatches sample_transcript ''cats'' = 0
   \<and> length (topicKeywords ''cats'') = 1
   \<and> relevanceScore sample_transcript ''cats'' = 0 / 1
   \<and> \<not> includes_str (toLowerCase sample_transcript) ''cats''
   \<and> length (sentences sample_transcript) = 3
   \<and> structureBonus sample_transcript = 0
   \<and> analysis_score
       (analyzeContentLocally (sd\<lparr>transcript := sample_transcript, topic := ''cats''\<rparr>)) = 0.35"
proof -
  have absent: "\<not> includes_str (toLowerCase sample_transcript) ''cats''"
    by code_simp
  have rel: "relevanceScore sample_transcript ''cats'' = 0"
    by (simp add: relevanceScore_def sample_keywordMatches)
  have bonus: "structureBonus sample_transcript = 0"
    by (simp add: structureBonus_def sample_sentences)
  have "analysis_score
          (analyzeContentLocally (sd\<lparr>transcript := sample_transcript, topic := ''cats''\<rparr>)) = 0.35"
    by (simp add: sample_local_score)
  with absent rel bonus show ?thesis
    by (simp add: sample_keywordMatches sample_sentences sample_topicKeywords)
qed

subsection \<open>Evaluation of a session\<close>

text \<open>
  Claim C6: for a session with an empty transcript the content analysis is the fixed
  no-speech response, score 0.2, feedback \<^verbatim>\<open>"No speech detected during the session."\<close> and
  the two suggestions \<^verbatim>\<open>"Ensure microphone is working"\<close>, \<^verbatim>\<open>"Speak clearly and loudly"\<close>;
  \<^verbatim>\<open>evaluateSession\<close> reports it whatever the handle, the API key and the remote service,
  since the remote analysis is only entered with a transcript.
\<close>

theorem empty_transcript_no_speech_response:
  assumes "transcript sd = []"
  shows "analyzeContentLocally sd =
           \<lparr>analysis_score = 0.2,
            analysis_feedback = ''No speech detected during the session.'',
            analysis_suggestions =
              [''Ensure microphone is working'', ''Speak clearly and loudly'']\<rparr>
         \<and> contentQuality (snd (evaluateSession this sd apiKey reply)) = 0.2
         \<and> feedback (snd (evaluateSession this sd apiKey reply))
             = ''No speech detected during the session.''
         \<and> suggestions (snd (evaluateSession this sd apiKey reply))
             = [''Ensure microphone is working'', ''Speak clearly and loudly'']"
proof -
  have local: "analyzeContentLocally sd =
           \<lparr>analysis_score = 0.2,
            analysis_feedback = ''No speech detected during the session.'',
            analysis_suggestions =
              [''Ensure microphone is working'', ''Speak clearly and loudly'']\<rparr>"
    using assms by (simp add: analyzeContentLocally_def)
  have chosen: "contentAnalysis (initGemini this apiKey) reply sd = analyzeContentLocally sd"
    using assms by (simp add: contentAnalysis_def)
  show ?thesis
    by (simp add: evaluateSession_metrics chosen local)
qed

theorem empty_transcript_no_speech_response_witness:
  "transcript (sample_session\<lparr>transcript := []\<rparr>) = []
   \<and> genAI (fst (evaluateSession \<lparr>genAI = True\<rparr> (sample_session\<lparr>transcript := []\<rparr>)
        (Some ''key'') (Parsed (Some 0.9) (Some ''Well done'') None)))
   \<and> contentQuality (snd (evaluateSession \<lparr>genAI = True\<rparr> (sample_session\<lparr>transcript := []\<rparr>)
        (Some ''key'') (Parsed (Some 0.9) (Some ''Well done'') None))) = 0.2
   \<and> feedback (snd (evaluateSession \<lparr>genAI = True\<rparr> (sample_session\<lparr>transcript := []\<rparr>)
        (Some ''key'') (Parsed (Some 0.9) (Some ''Well done'') None)))
       = ''No speech detected during the session.''
   \<and> suggestions (snd (evaluateSession \<lparr>genAI = True\<rparr> (sample_session\<lparr>transcript := []\<rparr>)
        (Some ''key'') (Parsed (Some 0.9) (Some ''Well done'') None)))
       = [''Ensure microphone is working'', ''Speak clearly and loudly'']"
proof -
  have h: "transcript (sample_session\<lparr>transcript := []\<rparr>) = []"
    by simp
  have handle: "genAI (fst (evaluateSession \<lparr>genAI = True\<rparr> (sample_session\<lparr>transcript := []\<rparr>)
        (Some ''key'') (Parsed (Some 0.9) (Some ''Well done'') None)))"
    by (simp add: evaluateSession_def initGemini_def Let_def)
  from empty_transcript_no_speech_response [OF h, of "\<lparr>genAI = True\<rparr>" "Some ''key''"
      "Parsed (Some 0.9) (Some ''Well done'') None"] h handle
  show ?thesis by blast
qed

text \<open>
  Claim C4: for a session with a transcript, evaluated with a handle, when the remote
  content analysis throws (the request fails or the response is malformed), the metrics
  of \<^verbatim>\<open>evaluateSession\<close> carry the score, the feedback and the suggestions of the local
  analyzer; the three other component scores are the computed ones, and the result is not
  the object of default metrics.
\<close>

theorem remote_failure_uses_local_analysis:
  assumes "transcript sd \<noteq> []"
    and "genAI (initGemini this apiKey)"
    and "analyzeContentWithGemini (initGemini this apiKey) reply sd = Inl err"
  shows "contentQuality (snd (evaluateSession this sd apiKey reply))
           = analysis_score (analyzeContentLocally sd)
         \<and> feedback (snd (evaluateSession this sd apiKey reply))
             = analysis_feedback (analyzeContentLocally sd)
         \<and> suggestions (snd (evaluateSession this sd apiKey reply))
             = analysis_suggestions (analyzeContentLocally sd)
         \<and> faceEngagement (snd (evaluateSession this sd apiKey reply))
             = calculateFaceEngagement (emotions sd)
         \<and> voiceClarity (snd (evaluateSession this sd apiKey reply))
             = calculateVoiceClarity (voiceQualities sd)
         \<and> interactionScore (snd (evaluateSession this sd apiKey reply))
             = calculateInteractionScore sd
         \<and> snd (evaluateSession this sd apiKey reply) \<noteq> getDefaultMetrics"
proof -
  have chosen: "contentAnalysis (initGemini this apiKey) reply sd = analyzeContentLocally sd"
    using assms by (simp add: contentAnalysis_def)
  have "feedback (snd (evaluateSession this sd apiKey reply)) \<noteq> feedback getDefaultMetrics"
    using local_feedback_not_default [OF assms(1)]
    by (simp add: evaluateSession_metrics chosen getDefaultMetrics_def)
  then have "snd (evaluateSession this sd apiKey reply) \<noteq> getDefaultMetrics"
    by auto
  then show ?thesis
    by (simp add: evaluateSession_metrics chosen)
qed

theorem remote_failure_uses_local_analysis_witness:
  "transcript sample_session \<noteq> []
   \<and> genAI (initGemini \<lparr>genAI = False\<rparr> (Some ''key''))
   \<and> analyzeContentWithGemini (initGemini \<lparr>genAI = False\<rparr> (Some ''key'')) TransportFailure
       sample_session = Inl RequestFailed
   \<and> analyzeContentWithGemini (initGemini \<lparr>genAI = False\<rparr> (Some ''key'')) MalformedJSON
       sample_session = Inl InvalidResponseFormat
   \<and> contentQuality (snd (evaluateSession \<lparr>genAI = False\<rparr> sample_session (Some ''key'')
        TransportFailure)) = 0.35
   \<and> contentQuality (snd (evaluateSession \<lparr>genAI = False\<rparr> sample_session (Some ''key'')
        MalformedJSON)) = 0.35
   \<and> snd (evaluateSession \<lparr>genAI = False\<rparr> sample_session (Some ''key'') TransportFailure)
       \<noteq> getDefaultMetrics"
proof -
  have t: "transcript sample_session \<noteq> []"
    by (simp add: sample_session_def sample_transcript_not_empty)
  have g: "genAI (initGemini \<lparr>genAI = False\<rparr> (Some ''key''))"
    by (simp add: initGemini_def truthy_def)
  have r1: "analyzeContentWithGemini (initGemini \<lparr>genAI = False\<rparr> (Some ''key''))
              TransportFailure sample_session = Inl RequestFailed"
    by (simp add: analyzeContentWithGemini_def initGemini_def truthy_def)
  have r2: "analyzeContentWithGemini (initGemini \<lparr>genAI = False\<rparr> (Some ''key''))
              MalformedJSON sample_session = Inl InvalidResponseFormat"
    by (simp add: analyzeContentWithGemini_def initGemini_def truthy_def)
  have local: "analysis_score (analyzeContentLocally sample_session) = 0.35"
    by (simp add: sample_local_score sample_session_def)
  from remote_failure_uses_local_analysis [OF t g r1] remote_failure_uses_local_analysis [OF t g r2]
    t g r1 r2 local
  show ?thesis by simp
qed

end
